theory Spec2Isabelle
  imports Complex_Main "HOL-Library.Multiset"
begin

section \<open>JavaScript values used by src/ext/commands.ts\<close>

text \<open>
  A JavaScript number is either NaN or a finite double, kept by its exact value.
  Infinities do not arise in the code modelled here.
\<close>

datatype number = NaN | Num real

text \<open>
  Values that reach a \<^verbatim>\<open>reject\<close> or a \<^verbatim>\<open>catch\<close>: a string
  (\<^verbatim>\<open>reject("No valid start time selected")\<close>, the sentinel \<^verbatim>\<open>'cancel'\<close>),
  an \<^verbatim>\<open>Error\<close> object with its message (\<^verbatim>\<open>throw new Error(...)\<close>), or the
  \<^verbatim>\<open>TypeError\<close> the runtime throws when a property of \<^verbatim>\<open>undefined\<close> is read.
\<close>

datatype jsvalue = Str string | Error string | TypeError

text \<open>A promise (or a Q deferred): not settled, resolved with a value, or rejected with a reason.\<close>

datatype 'a promise = Pending | Resolved 'a | Rejected jsvalue

subsection \<open>Double-precision arithmetic\<close>

text \<open>
  \<open>bitlen n\<close> is the number of binary digits of \<open>n\<close>; \<open>ilog2 q\<close> is the binary exponent
  of a positive real (\<open>2 ^ ilog2 q \<le> q < 2 ^ (ilog2 q + 1)\<close>). \<open>to_double q\<close> rounds
  \<open>q\<close> to the nearest number with a 53-bit significand, ties to even: the IEEE 754
  result of an arithmetic operation whose exact value is \<open>q\<close>, in the normal range.
\<close>

fun bitlen :: "nat \<Rightarrow> nat" where
  "bitlen n = (if n = 0 then 0 else Suc (bitlen (n div 2)))"

declare bitlen.simps [simp del]

definition ilog2 :: "real \<Rightarrow> int" where
  "ilog2 q = (if 1 \<le> q then int (bitlen (nat \<lfloor>q\<rfloor>)) - 1
              else - int (bitlen (nat (\<lceil>1 / q\<rceil> - 1))))"

definition round_half_even :: "real \<Rightarrow> int" where
  "round_half_even x =
     (let n = \<lfloor>x\<rfloor>; r = x - of_int n
      in if r < 1 / 2 then n else if 1 / 2 < r then n + 1 else if even n then n else n + 1)"

definition to_double :: "real \<Rightarrow> real" where
  "to_double q =
     (if q = 0 then 0
      else let e = ilog2 \<bar>q\<bar> - 52
           in sgn q * of_int (round_half_even (\<bar>q\<bar> / 2 powi e)) * 2 powi e)"

subsection \<open>Math.abs and Number.prototype.toFixed\<close>

definition Math_abs :: "number \<Rightarrow> number" where
  "Math_abs x = (case x of NaN \<Rightarrow> NaN | Num v \<Rightarrow> Num \<bar>v\<bar>)"

definition digit_char :: "nat \<Rightarrow> char" where
  "digit_char d = ''0123456789'' ! d"

definition digits :: "char set" where
  "digits = set ''0123456789''"

fun dec :: "nat \<Rightarrow> string" where
  "dec n = (if n < 10 then [digit_char n] else dec (n div 10) @ [digit_char (n mod 10)])"

declare dec.simps [simp del]

text \<open>
  \<open>toFixed ToString f x\<close> follows the steps of ECMAScript's
  \<^verbatim>\<open>Number.prototype.toFixed(f)\<close>: \<^verbatim>\<open>"NaN"\<close> for NaN; a minus sign for \<open>x < 0\<close>; for a
  magnitude of \<open>10^21\<close> or more the result of the built-in number-to-string conversion,
  which is not modelled and taken as the parameter \<open>ToString\<close>; otherwise the integer \<open>n\<close>
  with \<open>n / 10^f\<close> nearest to \<open>x\<close> (the larger one on a tie), written in decimal, padded
  with zeros to \<open>f + 1\<close> digits, with a point before the last \<open>f\<close> digits.
\<close>

definition toFixed :: "(real \<Rightarrow> string) \<Rightarrow> nat \<Rightarrow> number \<Rightarrow> string" where
  "toFixed ToString f x =
     (case x of
        NaN \<Rightarrow> ''NaN''
      | Num v \<Rightarrow>
          (let s = (if v < 0 then ''-'' else '''');
               a = \<bar>v\<bar>
           in if 10 ^ 21 \<le> a then s @ ToString a
              else
                (let n = nat \<lfloor>a * 10 ^ f + 1 / 2\<rfloor>;
                     m = dec n
                 in if f \<noteq> 0 then
                      (let k = length m;
                           m' = (if k \<le> f then replicate (f + 1 - k) (CHR ''0'') @ m else m);
                           k' = (if k \<le> f then f + 1 else k)
                       in s @ take (k' - f) m' @ ''.'' @ drop (k' - f) m')
                    else s @ m)))"

section \<open>The moment library, as this code observes it\<close>

text \<open>
  The code calls \<^verbatim>\<open>isValid\<close>, \<^verbatim>\<open>isAfter\<close> and \<^verbatim>\<open>diff\<close> on a moment, and these read only
  its validity and its time value (milliseconds since the epoch, an integer). A moment is
  therefore \<open>Invalid\<close> (its time value is NaN) or \<open>Valid t\<close>.
\<close>

datatype Moment = Invalid | Valid int

fun isValid :: "Moment \<Rightarrow> bool" where
  "isValid Invalid = False"
| "isValid (Valid t) = True"

fun valueOf :: "Moment \<Rightarrow> number" where
  "valueOf Invalid = NaN"
| "valueOf (Valid t) = Num (of_int t)"

text \<open>\<^verbatim>\<open>a.isAfter(b)\<close>: false when either side is invalid, else \<^verbatim>\<open>a.valueOf() > b.valueOf()\<close>.\<close>

fun isAfter :: "Moment \<Rightarrow> Moment \<Rightarrow> bool" where
  "isAfter (Valid a) (Valid b) = (b < a)"
| "isAfter _ _ = False"

text \<open>
  \<^verbatim>\<open>a.diff(b)\<close>: NaN when either side is invalid, else \<^verbatim>\<open>a - b\<close> in milliseconds (a
  subtraction of doubles).
\<close>

fun diff :: "Moment \<Rightarrow> Moment \<Rightarrow> number" where
  "diff (Valid a) (Valid b) = Num (to_double (of_int (a - b)))"
| "diff _ _ = NaN"

text \<open>
  \<^verbatim>\<open>moment.duration(ms)\<close> keeps the milliseconds; \<^verbatim>\<open>asHours()\<close> is NaN for an invalid
  duration and \<^verbatim>\<open>ms / 36e5\<close> (a division of doubles) otherwise.
\<close>

datatype Duration = Duration number

fun asHours :: "Duration \<Rightarrow> number" where
  "asHours (Duration NaN) = NaN"
| "asHours (Duration (Num ms)) = Num (to_double (ms / 3600000))"

section \<open>The editor, as this code observes it\<close>

record Position =
  line :: nat
  character :: nat

record Range =
  range_start :: Position
  range_end :: Position

record Selection =
  anchor :: Position
  active :: Position

text \<open>
  A document answers \<^verbatim>\<open>getWordRangeAtPosition(position, regExp)\<close> (\<open>None\<close> is
  \<^verbatim>\<open>undefined\<close>: no match of the expression around the position) and
  \<^verbatim>\<open>getText(range)\<close>. Both are the editor's, not this repository's, and are parameters
  of the model.
\<close>

record TextDocument =
  getWordRangeAtPosition :: "Position \<Rightarrow> string \<Rightarrow> Range option"
  getText :: "Range \<Rightarrow> string"

record TextEditor =
  document :: TextDocument
  selections :: "Selection list"

text \<open>
  What \<^verbatim>\<open>computeAndPrintDuration()\<close>, which takes no argument, reads from its surroundings:
  \<^verbatim>\<open>vscode.window.activeTextEditor\<close> (\<open>None\<close> is \<^verbatim>\<open>undefined\<close>: no editor is open),
  \<^verbatim>\<open>this.ctrl.config.getTimeString()\<close>, the parser \<^verbatim>\<open>moment(text, format)\<close> (which fills
  the date from the clock), and the runtime's number-to-string conversion.
\<close>

record Env =
  activeTextEditor :: "TextEditor option"
  getTimeString :: string
  moment :: "string \<Rightarrow> string \<Rightarrow> Moment"
  NumberToString :: "real \<Rightarrow> string"

section \<open>computeAndPrintDuration (src/ext/commands.ts, lines 130 to 200)\<close>

text \<open>The regular expression of line 136; the backslash is character 0x5C.\<close>

definition regExp :: string where
  "regExp = concat [[CHR 0x5C], ''d{1,2}:?'', [CHR 0x5C], ''d{0,2}(?:'', [CHR 0x5C],
     ''s?(?:am|AM|pm|PM))?|'', [CHR 0x5C], ''s'']"

text \<open>The three variables declared at lines 142 to 144, \<open>None\<close> while undefined.\<close>

record Locals =
  l_start :: "Moment option"
  l_end :: "Moment option"
  l_target :: "Position option"

definition undefined_locals :: Locals where
  "undefined_locals = \<lparr>l_start = None, l_end = None, l_target = None\<rparr>"

text \<open>
  Lines 163 to 167: \<^verbatim>\<open>moment(text, tpl)\<close>, replaced by \<^verbatim>\<open>moment(text, "hmm")\<close> when it is
  not valid. The result of the second call is not tested.
\<close>

definition parse_time :: "Env \<Rightarrow> string \<Rightarrow> string \<Rightarrow> Moment" where
  "parse_time env tpl text =
     (let time = moment env text tpl
      in if \<not> isValid time then moment env text ''hmm'' else time)"

text \<open>The callback of \<^verbatim>\<open>editor.selections.forEach\<close>, lines 150 to 176.\<close>

definition visit :: "Env \<Rightarrow> TextEditor \<Rightarrow> string \<Rightarrow> Locals \<Rightarrow> Selection \<Rightarrow> Locals" where
  "visit env editor tpl vars selection =
     (case getWordRangeAtPosition (document editor) (active selection) regExp of
        None \<Rightarrow> vars\<lparr>l_target := Some (active selection)\<rparr>
      | Some word_range \<Rightarrow>
          (let text = getText (document editor) word_range;
               time = parse_time env tpl text
           in case l_start vars of
                None \<Rightarrow> vars\<lparr>l_start := Some time\<rparr>
              | Some start \<Rightarrow>
                  if isAfter start time then vars\<lparr>l_end := Some start, l_start := Some time\<rparr>
                  else vars\<lparr>l_end := Some time\<rparr>))"

definition forEach :: "Env \<Rightarrow> TextEditor \<Rightarrow> string \<Rightarrow> Selection list \<Rightarrow> Locals" where
  "forEach env editor tpl sels = foldl (visit env editor tpl) undefined_locals sels"

text \<open>
  The values the promise is rejected with, at lines 139, 178, 179 and 180, under the names
  the specification gives to these four outcomes.
\<close>

definition InvalidSelectionCount :: jsvalue where
  "InvalidSelectionCount = Error ''To compute the duration, you have to select the two times (or dates) in your text as well as the location where to print it. ''"

definition MissingStart :: jsvalue where
  "MissingStart = Str ''No valid start time selected''"

definition MissingEnd :: jsvalue where
  "MissingEnd = Str ''No valid end time selected''"

definition MissingTarget :: jsvalue where
  "MissingTarget = Str ''No valid target selected for printing the duration.''"

text \<open>Lines 182 and 183.\<close>

definition formattedDuration :: "Env \<Rightarrow> Moment \<Rightarrow> Moment \<Rightarrow> string" where
  "formattedDuration env start end_time =
     (let duration = Duration (diff start end_time)
      in toFixed (NumberToString env) 2 (Math_abs (asHours duration)))"

text \<open>
  The function returns the state of the promise it built and the calls of
  \<^verbatim>\<open>this.ctrl.inject.injectString(document, text, position)\<close> it made, in order. Reading
  \<^verbatim>\<open>editor.selections\<close> with no active editor throws a \<^verbatim>\<open>TypeError\<close>, which the
  \<^verbatim>\<open>catch\<close> of line 194 turns into a rejection, as it does the \<^verbatim>\<open>Error\<close> of line 139.
\<close>

type_synonym injectString_call = "TextDocument \<times> string \<times> Position"

definition computeAndPrintDuration :: "Env \<Rightarrow> unit promise \<times> injectString_call list" where
  "computeAndPrintDuration env =
     (case activeTextEditor env of
        None \<Rightarrow> (Rejected TypeError, [])
      | Some editor \<Rightarrow>
          if length (selections editor) \<noteq> 3 then (Rejected InvalidSelectionCount, [])
          else
            (let tpl = getTimeString env;
                 vars = forEach env editor tpl (selections editor)
             in case l_start vars of
                  None \<Rightarrow> (Rejected MissingStart, [])
                | Some start \<Rightarrow>
                    (case l_end vars of
                       None \<Rightarrow> (Rejected MissingEnd, [])
                     | Some end_time \<Rightarrow>
                         (case l_target vars of
                            None \<Rightarrow> (Rejected MissingTarget, [])
                          | Some target \<Rightarrow>
                              (Resolved (),
                               [(document editor, formattedDuration env start end_time, target)])))))"

text \<open>
  The word around a selection's cursor, as the callback reads it at lines 151 and 160:
  \<open>None\<close> when the expression matches nothing there (the selection becomes the target),
  else the text of the matched range (the selection is a time candidate).
\<close>

definition word_at :: "TextEditor \<Rightarrow> Selection \<Rightarrow> string option" where
  "word_at editor selection =
     map_option (getText (document editor))
       (getWordRangeAtPosition (document editor) (active selection) regExp)"

section \<open>processInput, showNote and showEntry (lines 49 to 69 and 216 to 269)\<close>

text \<open>
  Each of the three builds a chain of promises from collaborators that are not in this
  file (the input box, the parser, the reader, the injector, the editor window) and ends
  it with \<^verbatim>\<open>.then(editor => deferred.resolve(editor)).catch(...)\<close>. The state the chain
  reaches before these two handlers is the parameter \<open>chain\<close>; the model keeps the state
  of the deferred that is returned and what the handler reports, in order.
\<close>

datatype report =
    Util_error string
  | Console_error string string jsvalue
  | ShowErrorMessage string

record 'e handled =
  deferred :: "'e promise"
  reports :: "report list"

text \<open>
  \<^verbatim>\<open>error != 'cancel'\<close>: a string differs from \<^verbatim>\<open>'cancel'\<close> by its characters; an
  \<^verbatim>\<open>Error\<close> object is compared by its string form, which starts with its name and is
  never \<^verbatim>\<open>'cancel'\<close>.
\<close>

fun ne_cancel :: "jsvalue \<Rightarrow> bool" where
  "ne_cancel (Str s) = (s \<noteq> ''cancel'')"
| "ne_cancel (Error m) = True"
| "ne_cancel TypeError = True"

text \<open>\<^verbatim>\<open>showError\<close> (line 291) on a string, the only kind of argument this file passes.\<close>

definition showError :: "string \<Rightarrow> report list" where
  "showError error = [ShowErrorMessage error]"

definition processInput :: "'e promise \<Rightarrow> 'e handled" where
  "processInput chain =
     (case chain of
        Pending \<Rightarrow> \<lparr>deferred = Pending, reports = []\<rparr>
      | Resolved editor \<Rightarrow> \<lparr>deferred = Resolved editor, reports = []\<rparr>
      | Rejected error \<Rightarrow>
          if ne_cancel error
          then \<lparr>deferred = Rejected error, reports = [Util_error ''Failed to process input.'']\<rparr>
          else \<lparr>deferred = Pending, reports = []\<rparr>)"

definition showNote :: "'e promise \<Rightarrow> 'e handled" where
  "showNote chain =
     (case chain of
        Pending \<Rightarrow> \<lparr>deferred = Pending, reports = []\<rparr>
      | Resolved editor \<Rightarrow> \<lparr>deferred = Resolved editor, reports = []\<rparr>
      | Rejected reason \<Rightarrow>
          \<lparr>deferred = Rejected reason,
           reports =
             (if ne_cancel reason
              then Console_error ''[Journal]'' ''Failed to get file, Reason: '' reason
                   # showError ''Failed to create and load notes''
              else [])\<rparr>)"

text \<open>\<open>chain offset\<close> is the chain that \<^verbatim>\<open>showEntry(offset)\<close> builds from its argument.\<close>

definition showEntry :: "(int \<Rightarrow> 'e promise) \<Rightarrow> int \<Rightarrow> 'e handled" where
  "showEntry chain offset =
     (case chain offset of
        Pending \<Rightarrow> \<lparr>deferred = Pending, reports = []\<rparr>
      | Resolved editor \<Rightarrow> \<lparr>deferred = Resolved editor, reports = []\<rparr>
      | Rejected error \<Rightarrow>
          \<lparr>deferred = Rejected error,
           reports =
             (if ne_cancel error
              then [Console_error ''[Journal]'' ''Failed to get file, Reason: '' error]
              else [])\<rparr>)"

section \<open>An example environment\<close>

text \<open>
  A document with the line \<^verbatim>\<open>09:30 14:00 930 99:99 x\<close> followed by two empty lines. The
  expression matches the four words of digits at columns 0 to 5, 6 to 11, 12 to 15 and
  16 to 21, and each blank between them (its alternative \<^verbatim>\<open>\s\<close>); nothing matches at
  column 23, after the \<^verbatim>\<open>x\<close>, or on the empty lines. The parser is given on these words
  only, as \<^verbatim>\<open>moment\<close> answers on 2024-03-04 (UTC) with the configured format
  \<^verbatim>\<open>HH:mm\<close>: \<^verbatim>\<open>930\<close> is valid under \<^verbatim>\<open>hmm\<close> only, \<^verbatim>\<open>99:99\<close> and a blank under neither.
\<close>

definition pos :: "nat \<Rightarrow> nat \<Rightarrow> Position" where
  "pos l c = \<lparr>line = l, character = c\<rparr>"

definition cursor :: "nat \<Rightarrow> nat \<Rightarrow> Selection" where
  "cursor l c = \<lparr>anchor = pos l c, active = pos l c\<rparr>"

definition example_words :: "(nat \<times> nat \<times> string) list" where
  "example_words =
     [(0, 5, ''09:30''), (5, 6, '' ''), (6, 11, ''14:00''), (11, 12, '' ''), (12, 15, ''930''),
      (15, 16, '' ''), (16, 21, ''99:99''), (21, 22, '' '')]"

definition example_document :: TextDocument where
  "example_document =
     \<lparr>getWordRangeAtPosition = (\<lambda>p re.
        if line p = 0 \<and> re = regExp then
          (case filter (\<lambda>(a, b, w). a \<le> character p \<and> character p \<le> b) example_words of
             [] \<Rightarrow> None
           | (a, b, w) # _ \<Rightarrow> Some \<lparr>range_start = pos 0 a, range_end = pos 0 b\<rparr>)
        else None),
      getText = (\<lambda>r.
        case filter (\<lambda>(a, b, w). a = character (range_start r) \<and> b = character (range_end r))
               example_words of
          [] \<Rightarrow> ''''
        | (a, b, w) # _ \<Rightarrow> w)\<rparr>"

definition example_moment :: "string \<Rightarrow> string \<Rightarrow> Moment" where
  "example_moment text format =
     (if (text = ''09:30'' \<and> format = ''HH:mm'') \<or> (text = ''930'' \<and> format = ''hmm'')
        then Valid (1709510400000 + 34200000)
      else if text = ''14:00'' \<and> format = ''HH:mm'' then Valid (1709510400000 + 50400000)
      else Invalid)"

definition example_editor :: "Selection list \<Rightarrow> TextEditor" where
  "example_editor sels = \<lparr>document = example_document, selections = sels\<rparr>"

definition example_env :: "Selection list \<Rightarrow> Env" where
  "example_env sels =
     \<lparr>activeTextEditor = Some (example_editor sels),
      getTimeString = ''HH:mm'',
      moment = example_moment,
      NumberToString = (\<lambda>_. '''')\<rparr>"

section \<open>The loop over the selections\<close>

lemma visit_target:
  "word_at editor sel = None \<Longrightarrow>
   visit env editor tpl vars sel = vars\<lparr>l_target := Some (active sel)\<rparr>"
  by (auto simp: visit_def word_at_def split: option.splits)

lemma visit_time:
  "word_at editor sel = Some w \<Longrightarrow>
   visit env editor tpl vars sel =
     (case l_start vars of
        None \<Rightarrow> vars\<lparr>l_start := Some (parse_time env tpl w)\<rparr>
      | Some start \<Rightarrow>
          if isAfter start (parse_time env tpl w)
          then vars\<lparr>l_end := Some start, l_start := Some (parse_time env tpl w)\<rparr>
          else vars\<lparr>l_end := Some (parse_time env tpl w)\<rparr>)"
  by (auto simp: visit_def word_at_def Let_def split: option.splits)

lemma forEach_3:
  "forEach env editor tpl [a, b, c] =
     visit env editor tpl (visit env editor tpl (visit env editor tpl undefined_locals a) b) c"
  by (simp add: forEach_def)

lemma length_3: "length xs = 3 \<Longrightarrow> \<exists>a b c. xs = [a, b, c]"
  by (cases xs; simp; cases "tl xs"; simp; cases "tl (tl xs)"; auto)

text \<open>A list with the same elements as \<open>[a, b, c]\<close> is one of its six orders.\<close>

lemma orders_of_three:
  assumes "mset xs = {#a, b, c#}"
  shows "xs \<in> {[a, b, c], [a, c, b], [b, a, c], [b, c, a], [c, a, b], [c, b, a]}"
proof -
  have "length xs = 3"
    using assms by (metis size_mset size_add_mset size_empty numeral_3_eq_3)
  then obtain x y z where xs: "xs = [x, y, z]"
    using length_3 by blast
  show ?thesis
    using assms unfolding xs by (auto simp: add_eq_conv_ex)
qed

text \<open>
  Two valid times and one target, in any order: the earlier time ends in \<open>start\<close>, the
  later in \<open>end\<close>.
\<close>

lemma forEach_two_times:
  assumes "mset sels = {#a, b, c#}"
    and "word_at editor a = Some wa" and "parse_time env tpl wa = Valid ta"
    and "word_at editor b = Some wb" and "parse_time env tpl wb = Valid tb"
    and "word_at editor c = None"
  shows "forEach env editor tpl sels =
     \<lparr>l_start = Some (Valid (min ta tb)), l_end = Some (Valid (max ta tb)),
      l_target = Some (active c)\<rparr>"
proof -
  have "sels \<in> {[a, b, c], [a, c, b], [b, a, c], [b, c, a], [c, a, b], [c, b, a]}"
    using orders_of_three[OF assms(1)] .
  then show ?thesis
    using assms(2-)
    by (auto simp: forEach_3 visit_target visit_time undefined_locals_def min_def max_def)
qed

text \<open>
  One candidate word that parses under neither format, a second candidate and one target,
  in any order: the invalid moment is stored like any other, and the promise is resolved
  with \<^verbatim>\<open>NaN\<close> injected at the target.
\<close>

lemma unparsable_candidate_prints_NaN:
  assumes "activeTextEditor env = Some editor"
    and "mset (selections editor) = {#a, b, c#}"
    and "word_at editor a = Some wa" and "parse_time env (getTimeString env) wa = Invalid"
    and "word_at editor b = Some wb"
    and "word_at editor c = None"
  shows "computeAndPrintDuration env = (Resolved (), [(document editor, ''NaN'', active c)])"
proof -
  have nan: "formattedDuration env x Invalid = ''NaN''" "formattedDuration env Invalid x = ''NaN''"
    for x
    by (cases x; simp add: formattedDuration_def toFixed_def Math_abs_def)+
  have "selections editor \<in> {[a, b, c], [a, c, b], [b, a, c], [b, c, a], [c, a, b], [c, b, a]}"
    using orders_of_three[OF assms(2)] .
  then show ?thesis
    using assms(1,3-) nan
    by (cases "parse_time env (getTimeString env) wb")
      (auto simp: computeAndPrintDuration_def forEach_3 visit_target visit_time
        undefined_locals_def)
qed

section \<open>The example environment, evaluated\<close>

lemmas example_defs =
  example_env_def example_editor_def example_document_def example_words_def
  example_moment_def cursor_def pos_def

lemmas number_defs =
  to_double_def ilog2_def bitlen.simps round_half_even_def toFixed_def dec.simps
  digit_char_def Math_abs_def

lemmas duration_defs =
  computeAndPrintDuration_def forEach_def visit_def undefined_locals_def parse_time_def
  formattedDuration_def Let_def

lemma example_word_at:
  "word_at (example_editor sels) (cursor 0 2) = Some ''09:30''"
  "word_at (example_editor sels) (cursor 0 8) = Some ''14:00''"
  "word_at (example_editor sels) (cursor 0 12) = Some '' ''"
  "word_at (example_editor sels) (cursor 0 13) = Some ''930''"
  "word_at (example_editor sels) (cursor 0 17) = Some ''99:99''"
  "word_at (example_editor sels) (cursor 0 23) = None"
  "word_at (example_editor sels) (cursor 2 0) = None"
  by (simp_all add: word_at_def example_defs)

lemma example_parse_time:
  "parse_time (example_env sels) ''HH:mm'' ''09:30'' = Valid 1709544600000"
  "parse_time (example_env sels) ''HH:mm'' ''14:00'' = Valid 1709560800000"
  "parse_time (example_env sels) ''HH:mm'' ''930'' = Valid 1709544600000"
  "parse_time (example_env sels) ''HH:mm'' ''99:99'' = Invalid"
  "parse_time (example_env sels) ''HH:mm'' '' '' = Invalid"
  by (simp_all add: parse_time_def example_defs)

lemma example_env_sel [simp]:
  "activeTextEditor (example_env sels) = Some (example_editor sels)"
  "getTimeString (example_env sels) = ''HH:mm''"
  "selections (example_editor sels) = sels"
  "document (example_editor sels) = example_document"
  by (simp_all add: example_env_def example_editor_def)

lemma active_cursor [simp]: "active (cursor l c) = pos l c"
  by (simp add: cursor_def)

lemma example_four_and_a_half_hours:
  "formattedDuration env (Valid 1709544600000) (Valid 1709560800000) = ''4.50''"
  by (simp add: formattedDuration_def number_defs Let_def)

section \<open>What the loop reads\<close>

lemma visit_reads:
  assumes "active sel' = active sel" and "document editor' = document editor"
    and "moment env' = moment env"
  shows "visit env' editor' tpl vars sel' = visit env editor tpl vars sel"
  using assms by (auto simp: visit_def parse_time_def Let_def split: option.splits)

lemma foldl_visit_reads:
  assumes "map active sels' = map active sels" and "document editor' = document editor"
    and "moment env' = moment env"
  shows "foldl (visit env' editor' tpl) vars sels' = foldl (visit env editor tpl) vars sels"
  using assms(1)
proof (induction sels arbitrary: sels' vars)
  case Nil
  then show ?case by simp
next
  case (Cons x xs)
  then obtain y ys where ys: "sels' = y # ys" "active y = active x" "map active ys = map active xs"
    by (cases sels') auto
  show ?case
    using Cons.IH[OF ys(3)] visit_reads[OF ys(2) assms(2,3)] by (simp add: ys(1))
qed

section \<open>Double rounding and the shape of toFixed(2)\<close>

lemma bitlen_bounds:
  "0 < n \<Longrightarrow> 2 ^ (bitlen n - 1) \<le> n \<and> n < 2 ^ bitlen n"
proof (induction n rule: bitlen.induct)
  case (1 n)
  show ?case
  proof (cases "n div 2 = 0")
    case True
    then have "n = 1" using "1.prems" by (simp add: div_eq_0_iff)
    then show ?thesis by (simp add: bitlen.simps)
  next
    case False
    then have ih: "2 ^ (bitlen (n div 2) - 1) \<le> n div 2" "n div 2 < 2 ^ bitlen (n div 2)"
      using "1.IH" "1.prems" by auto
    have pos: "0 < bitlen (n div 2)"
      using False by (simp add: bitlen.simps)
    have b: "bitlen n = Suc (bitlen (n div 2))"
      using "1.prems" by (subst bitlen.simps) simp
    have "2 ^ (bitlen n - 1) = 2 * 2 ^ (bitlen (n div 2) - 1)"
      using pos b by (cases "bitlen (n div 2)") simp_all
    also have "\<dots> \<le> 2 * (n div 2)" using ih(1) by simp
    also have "\<dots> \<le> n" by simp
    finally have lo: "2 ^ (bitlen n - 1) \<le> n" .
    have "n < 2 * (n div 2) + 2" by presburger
    also have "\<dots> \<le> 2 * 2 ^ bitlen (n div 2)" using ih(2) by simp
    finally have hi: "n < 2 ^ bitlen n" using b by simp
    show ?thesis using lo hi by simp
  qed
qed

lemma ilog2_bounds:
  assumes "0 < q"
  shows "2 powi (ilog2 q) \<le> q \<and> q < 2 powi (ilog2 q + 1)"
proof (cases "1 \<le> q")
  case True
  define n where "n = nat \<lfloor>q\<rfloor>"
  have n: "0 < n" "real n \<le> q" "q < real n + 1"
    using True by (simp_all add: n_def; linarith)+
  have e: "ilog2 q = int (bitlen n) - 1" using True by (simp add: ilog2_def n_def)
  have bl: "0 < bitlen n" using n(1) by (simp add: bitlen.simps)
  have b: "2 ^ (bitlen n - 1) \<le> n" "n < 2 ^ bitlen n" using bitlen_bounds[OF n(1)] by auto
  have p1: "(2::real) powi (int (bitlen n) - 1) = 2 ^ (bitlen n - 1)"
    using bl by (simp add: power_int_def nat_diff_distrib')
  have p2: "(2::real) powi (int (bitlen n) - 1 + 1) = 2 ^ bitlen n"
    by (simp add: power_int_def)
  have "(2::real) ^ (bitlen n - 1) \<le> real n"
    using b(1) by (metis of_nat_le_iff of_nat_numeral of_nat_power)
  then have lower: "2 powi (ilog2 q) \<le> q"
    unfolding e p1 using n(2) by linarith
  have "real n + 1 \<le> 2 ^ bitlen n"
    using b(2) by (metis Suc_leI of_nat_Suc of_nat_le_iff of_nat_numeral of_nat_power add.commute)
  then have "q < 2 powi (ilog2 q + 1)"
    unfolding e p2 using n(3) by linarith
  with lower show ?thesis by simp
  next
  case False
  define r where "r = 1 / q"
  have r: "1 < r" using False assms by (simp add: r_def)
  define m where "m = nat (\<lceil>r\<rceil> - 1)"
  have c2: "2 \<le> \<lceil>r\<rceil>" using r by linarith
  have m: "0 < m" "real m < r" "r \<le> real m + 1"
    using c2 by (simp_all add: m_def; linarith)+
  have e: "ilog2 q = - int (bitlen m)" using False by (simp add: ilog2_def m_def r_def)
  have bl: "0 < bitlen m" using m(1) by (simp add: bitlen.simps)
  have b: "2 ^ (bitlen m - 1) \<le> m" "m < 2 ^ bitlen m" using bitlen_bounds[OF m(1)] by auto
  have "real m + 1 \<le> 2 ^ bitlen m" using b(2)
    by (metis Suc_leI of_nat_Suc of_nat_le_iff of_nat_numeral of_nat_power add.commute)
  then have up: "r \<le> 2 ^ bitlen m" using m(3) by linarith
  have "(2::real) ^ (bitlen m - 1) \<le> real m" using b(1) by (metis of_nat_le_iff of_nat_numeral of_nat_power)
  then have lo: "2 ^ (bitlen m - 1) < r" using m(2) by linarith
  have q: "1 / r = q" by (simp add: r_def)
  have p1: "(2::real) powi (- int (bitlen m)) = 1 / 2 ^ bitlen m"
    by (simp add: power_int_def field_simps)
  have p2: "(2::real) powi (- int (bitlen m) + 1) = 1 / 2 ^ (bitlen m - 1)"
    using bl by (cases "bitlen m") (simp_all add: power_int_def field_simps nat_add_distrib)
  have "1 / 2 ^ bitlen m \<le> 1 / r"
    using up r by (intro divide_left_mono) simp_all
  then have lower: "2 powi (ilog2 q) \<le> q"
    unfolding q e p1 .
  have "1 / r < 1 / 2 ^ (bitlen m - 1)"
    using lo r by (intro divide_strict_left_mono) simp_all
  then have "q < 2 powi (ilog2 q + 1)"
    unfolding q e p2 .
  with lower show ?thesis by simp
qed

lemma round_half_even_bounds:
  "\<bar>of_int (round_half_even x) - x\<bar> \<le> 1 / 2"
  unfolding round_half_even_def Let_def
  by (auto; linarith)

lemma to_double_error: "\<bar>to_double q - q\<bar> \<le> \<bar>q\<bar> / 2 ^ 53"
proof (cases "q = 0")
  case True
  then show ?thesis by (simp add: to_double_def)
next
  case False
  define p :: real where "p = 2 powi (ilog2 \<bar>q\<bar> - 52)"
  define r where "r = round_half_even (\<bar>q\<bar> / p)"
  have p_pos: "0 < p" by (simp add: p_def)
  have p_eq: "p = 2 powi (ilog2 \<bar>q\<bar>) / 2 ^ 52"
    by (simp add: p_def power_int_diff)
  have "2 powi (ilog2 \<bar>q\<bar>) \<le> \<bar>q\<bar>"
    using ilog2_bounds[of "\<bar>q\<bar>"] False by simp
  then have p_le: "p / 2 \<le> \<bar>q\<bar> / 2 ^ 53"
    by (simp add: p_eq)
  have t: "to_double q = sgn q * of_int r * p"
    using False by (simp add: to_double_def Let_def p_def r_def)
  have "to_double q - q = sgn q * of_int r * p - sgn q * \<bar>q\<bar>"
    by (simp only: t sgn_mult_abs)
  also have "\<dots> = sgn q * (of_int r * p - \<bar>q\<bar>)"
    by (simp add: algebra_simps)
  finally have "to_double q - q = sgn q * (of_int r * p - \<bar>q\<bar>)" .
  then have "\<bar>to_double q - q\<bar> = \<bar>of_int r * p - \<bar>q\<bar>\<bar>"
    using False by (simp add: abs_mult abs_sgn_eq)
  also have "of_int r * p - \<bar>q\<bar> = p * (of_int r - \<bar>q\<bar> / p)"
    using p_pos by (simp add: field_simps)
  also have "\<bar>p * (of_int r - \<bar>q\<bar> / p)\<bar> = p * \<bar>of_int r - \<bar>q\<bar> / p\<bar>"
    using p_pos by (simp add: abs_mult)
  also have "\<dots> \<le> p * (1 / 2)"
    using round_half_even_bounds[of "\<bar>q\<bar> / p"] p_pos unfolding r_def
    by (intro mult_left_mono) simp_all
  finally show ?thesis
    using p_le by simp
qed

lemma dec_lt_10: "n < 10 \<Longrightarrow> dec n = [digit_char n]"
  by (subst dec.simps) simp

lemma dec_ge_10: "10 \<le> n \<Longrightarrow> dec n = dec (n div 10) @ [digit_char (n mod 10)]"
  by (subst dec.simps) simp

lemma dec_lt_100:
  "10 \<le> n \<Longrightarrow> n < 100 \<Longrightarrow> dec n = [digit_char (n div 10), digit_char (n mod 10)]"
  by (simp add: dec_ge_10 dec_lt_10)

lemma dec_ge_100:
  assumes "100 \<le> n"
  shows "dec n = dec (n div 100) @ [digit_char (n div 10 mod 10), digit_char (n mod 10)]"
proof -
  have "10 \<le> n div 10" using assms by simp
  then have "dec (n div 10) = dec (n div 10 div 10) @ [digit_char (n div 10 mod 10)]"
    by (rule dec_ge_10)
  moreover have "n div 10 div 10 = n div 100" by (simp add: div_mult2_eq)
  ultimately show ?thesis using assms by (simp add: dec_ge_10)
qed

lemma dec_0: "dec 0 = ''0''"
  by (simp add: dec_lt_10 digit_char_def)

lemma dec_nonempty: "dec n \<noteq> []"
  by (subst dec.simps) simp

text \<open>The shape of \<^verbatim>\<open>x.toFixed(2)\<close> for \<open>0 \<le> x < 10^21\<close>.\<close>

lemma toFixed_2:
  assumes "0 \<le> v" and "v < 10 ^ 21" and "n = nat \<lfloor>v * 100 + 1 / 2\<rfloor>"
  shows "toFixed T 2 (Num v) =
    dec (n div 100) @ ''.'' @ [digit_char (n div 10 mod 10), digit_char (n mod 10)]"
proof -
  have n: "nat \<lfloor>v * 100 + 1 / 2\<rfloor> = n"
    using assms(3) by simp
  have abs: "\<bar>v\<bar> = v" "\<not> v < 0" "\<not> 1000000000000000000000 \<le> v"
    using assms(1,2) by simp_all
  consider "n < 10" | "10 \<le> n" "n < 100" | "100 \<le> n" by linarith
  then show ?thesis
  proof cases
    case 1
    then show ?thesis
      by (simp add: toFixed_def Let_def abs n dec_lt_10 dec_0 numeral_2_eq_2 digit_char_def)
  next
    case 2
    then show ?thesis
      by (simp add: toFixed_def Let_def abs n dec_lt_100 dec_0)
  next
    case 3
    have len: "\<not> length (dec (n div 100)) + 2 \<le> 2"
      using dec_nonempty[of "n div 100"] by (cases "dec (n div 100)") simp_all
    show ?thesis
      using 3 len by (simp add: toFixed_def Let_def abs n dec_ge_100)
  qed
qed

text \<open>
  Two valid moments in the range of JavaScript dates (at most 8.64e15 ms from the epoch):
  the printed string is an unsigned decimal with exactly two fractional digits, the
  writing of \<open>n / 100\<close>, and it differs from the exact number of hours between the two
  times by at most half a hundredth plus the rounding of the two double operations.
\<close>

lemma valid_times_print_two_fraction_digits:
  assumes "\<bar>a\<bar> \<le> 8640000000000000" and "\<bar>b\<bar> \<le> 8640000000000000"
    and "x = \<bar>real_of_int (a - b)\<bar> / 3600000"
  shows "\<exists>n. formattedDuration env (Valid a) (Valid b) =
           dec (n div 100) @ ''.'' @ [digit_char (n div 10 mod 10), digit_char (n mod 10)]
         \<and> \<bar>real n / 100 - x\<bar> \<le> 1 / 200 + x / 2 ^ 51"
proof -
  define k where "k = \<bar>real_of_int (a - b)\<bar>"
  define d where "d = to_double (of_int (a - b))"
  define y where "y = d / 3600000"
  define h where "h = \<bar>to_double y\<bar>"
  define n where "n = nat \<lfloor>h * 100 + 1 / 2\<rfloor>"
  have k: "0 \<le> k" "k \<le> 17280000000000000"
    using assms(1,2) by (simp_all add: k_def)
  have x: "x = k / 3600000"
    by (simp add: assms(3) k_def)
  have "\<bar>d - of_int (a - b)\<bar> \<le> k / 2 ^ 53"
    unfolding d_def k_def by (rule to_double_error)
  then have d: "\<bar>\<bar>d\<bar> - k\<bar> \<le> k / 2 ^ 53"
    unfolding k_def by linarith
  have ay: "\<bar>y\<bar> = \<bar>d\<bar> / 3600000"
    by (simp add: y_def)
  have y: "\<bar>\<bar>y\<bar> - x\<bar> \<le> x / 2 ^ 53"
    using d unfolding ay x by (simp add: field_simps abs_if split: if_splits)
  have "\<bar>to_double y - y\<bar> \<le> \<bar>y\<bar> / 2 ^ 53"
    by (rule to_double_error)
  then have h: "\<bar>h - \<bar>y\<bar>\<bar> \<le> \<bar>y\<bar> / 2 ^ 53"
    unfolding h_def by linarith
  have x0: "0 \<le> x" "x \<le> 4800000000"
    using k by (simp_all add: x)
  have hx: "\<bar>h - x\<bar> \<le> x / 2 ^ 51"
    using h y x0 by (simp add: abs_if split: if_splits)
  have h0: "0 \<le> h" and h21: "h < 10 ^ 21"
    using hx x0 by (simp_all add: h_def abs_if split: if_splits)
  have "of_int \<lfloor>h * 100 + 1 / 2\<rfloor> \<le> h * 100 + 1 / 2"
    and "h * 100 + 1 / 2 < of_int \<lfloor>h * 100 + 1 / 2\<rfloor> + 1"
    by linarith+
  moreover have "real n = of_int \<lfloor>h * 100 + 1 / 2\<rfloor>"
    using h0 by (simp add: n_def)
  ultimately have nh: "\<bar>real n / 100 - h\<bar> \<le> 1 / 200"
    by (simp add: abs_if field_simps)
  have "formattedDuration env (Valid a) (Valid b) = toFixed (NumberToString env) 2 (Num h)"
    by (simp add: formattedDuration_def Math_abs_def h_def y_def d_def)
  also have "\<dots> =
      dec (n div 100) @ ''.'' @ [digit_char (n div 10 mod 10), digit_char (n mod 10)]"
    using h0 h21 n_def by (rule toFixed_2)
  finally show ?thesis
    using nh hx by (intro exI[of _ n]) (simp add: abs_if split: if_splits)
qed

text \<open>Equal times print \<^verbatim>\<open>0.00\<close>, without a sign.\<close>

lemma equal_times_print_zero:
  "formattedDuration env (Valid a) (Valid a) = ''0.00''"
  by (simp add: formattedDuration_def Math_abs_def to_double_def toFixed_def dec_0 Let_def)

lemma digit_char_is_digit: "d < 10 \<Longrightarrow> digit_char d \<in> digits"
  unfolding digit_char_def digits_def by (rule nth_mem) simp

lemma dec_is_digits: "set (dec n) \<subseteq> digits"
proof (induction n rule: dec.induct)
  case (1 n)
  show ?case
  proof (cases "n < 10")
    case True
    then show ?thesis
      using digit_char_is_digit[OF True] by (simp add: dec_lt_10)
  next
    case False
    have "digit_char (n mod 10) \<in> digits"
      by (rule digit_char_is_digit) simp
    then show ?thesis
      using "1.IH"[OF False] False by (simp add: dec_ge_10)
  qed
qed

text \<open>In particular the printed string has no sign and no exponent.\<close>

lemma valid_times_print_unsigned:
  assumes "\<bar>a\<bar> \<le> 8640000000000000" and "\<bar>b\<bar> \<le> 8640000000000000"
  shows "set (formattedDuration env (Valid a) (Valid b)) \<subseteq> insert (CHR ''.'') digits"
proof -
  obtain n where n: "formattedDuration env (Valid a) (Valid b) =
      dec (n div 100) @ ''.'' @ [digit_char (n div 10 mod 10), digit_char (n mod 10)]"
    using valid_times_print_two_fraction_digits[OF assms refl] by blast
  have "digit_char (n div 10 mod 10) \<in> digits" and "digit_char (n mod 10) \<in> digits"
    by (rule digit_char_is_digit, simp)+
  then show ?thesis
    using dec_is_digits[of "n div 100"] unfolding n by auto
qed

section \<open>Selection count\<close>

text \<open>
  C3. With an active editor whose number of selections is not three, the promise is
  rejected with the error of line 139 and \<^verbatim>\<open>injectString\<close> is not called: no partial
  result is produced.
\<close>

theorem wrong_selection_count_rejected:
  assumes "activeTextEditor env = Some editor"
    and "length (selections editor) \<noteq> 3"
  shows "computeAndPrintDuration env = (Rejected InvalidSelectionCount, [])"
  using assms by (simp add: computeAndPrintDuration_def)

theorem wrong_selection_count_rejected_witness:
  "computeAndPrintDuration (example_env [cursor 0 2, cursor 0 8])
     = (Rejected InvalidSelectionCount, [])
   \<and> computeAndPrintDuration (example_env [cursor 0 2, cursor 0 8, cursor 2 0, cursor 0 13])
     = (Rejected InvalidSelectionCount, [])"
  using wrong_selection_count_rejected
      [of "example_env [cursor 0 2, cursor 0 8]" "example_editor [cursor 0 2, cursor 0 8]"]
    wrong_selection_count_rejected
      [of "example_env [cursor 0 2, cursor 0 8, cursor 2 0, cursor 0 13]"
          "example_editor [cursor 0 2, cursor 0 8, cursor 2 0, cursor 0 13]"]
  by simp

section \<open>The write happens on the success path only\<close>

text \<open>
  C10. Whenever the promise is rejected (no editor, a selection count other than three, a
  missing start, end or target) \<^verbatim>\<open>injectString\<close> has not been called. When it is
  resolved, the editor had three selections, the loop left start, end and target all
  set, and \<^verbatim>\<open>injectString\<close> was called exactly once, with the formatted duration at the
  target. The promise is always settled.
\<close>

theorem injectString_only_on_success:
  "(\<forall>r. fst (computeAndPrintDuration env) = Rejected r \<longrightarrow>
        snd (computeAndPrintDuration env) = [])
   \<and> (fst (computeAndPrintDuration env) = Resolved () \<longrightarrow>
        (\<exists>editor start end_time target.
           activeTextEditor env = Some editor \<and> length (selections editor) = 3 \<and>
           l_start (forEach env editor (getTimeString env) (selections editor)) = Some start \<and>
           l_end (forEach env editor (getTimeString env) (selections editor)) = Some end_time \<and>
           l_target (forEach env editor (getTimeString env) (selections editor)) = Some target \<and>
           snd (computeAndPrintDuration env) =
             [(document editor, formattedDuration env start end_time, target)]))
   \<and> fst (computeAndPrintDuration env) \<noteq> Pending"
  by (auto simp: computeAndPrintDuration_def Let_def split: option.splits)

theorem injectString_only_on_success_witness:
  "fst (computeAndPrintDuration (example_env [cursor 0 2, cursor 2 0, cursor 0 23]))
     = Rejected MissingEnd
   \<and> snd (computeAndPrintDuration (example_env [cursor 0 2, cursor 2 0, cursor 0 23])) = []
   \<and> fst (computeAndPrintDuration (example_env [cursor 0 2, cursor 0 8, cursor 2 0]))
     = Resolved ()
   \<and> length (snd (computeAndPrintDuration (example_env [cursor 0 2, cursor 0 8, cursor 2 0])))
     = 1"
proof -
  have bad: "fst (computeAndPrintDuration (example_env [cursor 0 2, cursor 2 0, cursor 0 23]))
      = Rejected MissingEnd"
    by (simp add: duration_defs example_defs)
  have good: "fst (computeAndPrintDuration (example_env [cursor 0 2, cursor 0 8, cursor 2 0]))
      = Resolved ()"
    by (simp add: duration_defs example_defs)
  show ?thesis
    using bad good
      injectString_only_on_success [of "example_env [cursor 0 2, cursor 2 0, cursor 0 23]"]
      injectString_only_on_success [of "example_env [cursor 0 2, cursor 0 8, cursor 2 0]"]
    by auto
qed

section \<open>Missing start, end or target\<close>

text \<open>
  C6. After the loop over three selections the three variables are checked in the order
  start, end, target, and the first one that is undefined decides the rejection: the
  string of line 178 for start, of line 179 for end, of line 180 for target. The three
  values are different from each other, from the error of line 139 and from a
  \<^verbatim>\<open>TypeError\<close>, so the caller can tell them apart; in each case nothing is injected.
\<close>

theorem missing_variable_reported_distinctly:
  assumes "activeTextEditor env = Some editor"
    and "length (selections editor) = 3"
    and "vars = forEach env editor (getTimeString env) (selections editor)"
  shows "(l_start vars = None \<longrightarrow>
            computeAndPrintDuration env = (Rejected MissingStart, []))
    \<and> (l_start vars \<noteq> None \<and> l_end vars = None \<longrightarrow>
            computeAndPrintDuration env = (Rejected MissingEnd, []))
    \<and> (l_start vars \<noteq> None \<and> l_end vars \<noteq> None \<and> l_target vars = None \<longrightarrow>
            computeAndPrintDuration env = (Rejected MissingTarget, []))
    \<and> distinct [MissingStart, MissingEnd, MissingTarget, InvalidSelectionCount, TypeError]"
  using assms
  by (auto simp: computeAndPrintDuration_def Let_def MissingStart_def MissingEnd_def
      MissingTarget_def InvalidSelectionCount_def split: option.splits)

theorem missing_variable_reported_distinctly_witness:
  "computeAndPrintDuration (example_env [cursor 2 0, cursor 0 23, cursor 2 0])
     = (Rejected MissingStart, [])
   \<and> computeAndPrintDuration (example_env [cursor 0 2, cursor 2 0, cursor 0 23])
     = (Rejected MissingEnd, [])
   \<and> computeAndPrintDuration (example_env [cursor 0 2, cursor 0 8, cursor 0 12])
     = (Rejected MissingTarget, [])
   \<and> distinct [MissingStart, MissingEnd, MissingTarget, InvalidSelectionCount, TypeError]"
proof -
  let ?none = "[cursor 2 0, cursor 0 23, cursor 2 0]"
  let ?one = "[cursor 0 2, cursor 2 0, cursor 0 23]"
  let ?three = "[cursor 0 2, cursor 0 8, cursor 0 12]"
  have none: "l_start (forEach (example_env ?none) (example_editor ?none) ''HH:mm'' ?none) = None"
    by (simp add: forEach_3 visit_target example_word_at undefined_locals_def)
  have one: "l_start (forEach (example_env ?one) (example_editor ?one) ''HH:mm'' ?one) \<noteq> None"
      "l_end (forEach (example_env ?one) (example_editor ?one) ''HH:mm'' ?one) = None"
    by (simp_all add: forEach_3 visit_target visit_time example_word_at undefined_locals_def)
  have three: "l_start (forEach (example_env ?three) (example_editor ?three) ''HH:mm'' ?three) \<noteq> None"
      "l_end (forEach (example_env ?three) (example_editor ?three) ''HH:mm'' ?three) \<noteq> None"
      "l_target (forEach (example_env ?three) (example_editor ?three) ''HH:mm'' ?three) = None"
    by (simp_all add: forEach_3 visit_time example_word_at example_parse_time
        undefined_locals_def)
  show ?thesis
    using none one three
      missing_variable_reported_distinctly
        [of "example_env ?none" "example_editor ?none"
            "forEach (example_env ?none) (example_editor ?none) ''HH:mm'' ?none"]
      missing_variable_reported_distinctly
        [of "example_env ?one" "example_editor ?one"
            "forEach (example_env ?one) (example_editor ?one) ''HH:mm'' ?one"]
      missing_variable_reported_distinctly
        [of "example_env ?three" "example_editor ?three"
            "forEach (example_env ?three) (example_editor ?three) ''HH:mm'' ?three"]
    by simp
qed

section \<open>More than one target\<close>

text \<open>
  C7. Of three selections, let two or more have no word of the expression around them.
  Each of them overwrites \<open>target\<close>, which ends as the position of the last one; at most
  one time was seen, so \<open>end\<close> (and, with three targets, \<open>start\<close> too) stays undefined and
  the promise is rejected with the string of line 178 (three targets) or of line 179 (two
  targets). Nothing is injected.
\<close>

theorem two_targets_rejected:
  assumes "activeTextEditor env = Some editor"
    and "length (selections editor) = 3"
    and "targets = filter (\<lambda>s. word_at editor s = None) (selections editor)"
    and "2 \<le> length targets"
  shows "computeAndPrintDuration env =
           (Rejected (if length targets = 3 then MissingStart else MissingEnd), [])
    \<and> l_target (forEach env editor (getTimeString env) (selections editor)) =
        Some (active (last targets))"
proof -
  obtain a b c where abc: "selections editor = [a, b, c]"
    using length_3[OF assms(2)] by blast
  show ?thesis
    using assms abc
    apply (cases "word_at editor a"; cases "word_at editor b"; cases "word_at editor c")
           apply (simp_all add: computeAndPrintDuration_def forEach_3 visit_target visit_time
        undefined_locals_def Let_def split: option.splits)
    done
qed

theorem two_targets_rejected_witness:
  "computeAndPrintDuration (example_env [cursor 2 0, cursor 0 2, cursor 0 23])
     = (Rejected MissingEnd, [])
   \<and> l_target (forEach (example_env [cursor 2 0, cursor 0 2, cursor 0 23])
        (example_editor [cursor 2 0, cursor 0 2, cursor 0 23]) ''HH:mm''
        [cursor 2 0, cursor 0 2, cursor 0 23]) = Some (pos 0 23)"
proof -
  let ?sels = "[cursor 2 0, cursor 0 2, cursor 0 23]"
  have targets: "filter (\<lambda>s. word_at (example_editor ?sels) s = None) ?sels
      = [cursor 2 0, cursor 0 23]"
    by (simp add: example_word_at)
  show ?thesis
    using two_targets_rejected
        [of "example_env ?sels" "example_editor ?sels" "[cursor 2 0, cursor 0 23]"]
      targets
    by simp
qed

section \<open>Parsing a time candidate\<close>

text \<open>
  C5. For a selection around which the expression matches the word \<open>w\<close>, the moment that
  the callback stores (as start or as end) is \<^verbatim>\<open>moment(w, tpl)\<close> when that is valid, and
  \<^verbatim>\<open>moment(w, "hmm")\<close> only when it is not. In the example the configured format
  \<^verbatim>\<open>HH:mm\<close> does not parse \<^verbatim>\<open>930\<close> and the retry gives 09:30.
\<close>

theorem configured_format_first_then_glued:
  assumes "word_at editor sel = Some w"
    and "vars' = visit env editor tpl vars sel"
    and "time = (if isValid (moment env w tpl) then moment env w tpl else moment env w ''hmm'')"
  shows "parse_time env tpl w = time \<and> (l_start vars' = Some time \<or> l_end vars' = Some time)"
  using assms
  by (auto simp: visit_time parse_time_def Let_def split: option.splits)

theorem configured_format_first_then_glued_witness:
  "\<not> isValid (moment (example_env []) ''930'' ''HH:mm'')
   \<and> moment (example_env []) ''930'' ''hmm'' = Valid 1709544600000
   \<and> parse_time (example_env []) ''HH:mm'' ''930'' = Valid 1709544600000
   \<and> l_start (visit (example_env []) (example_editor []) ''HH:mm'' undefined_locals
        (cursor 0 13)) = Some (Valid 1709544600000)"
proof -
  have invalid: "\<not> isValid (moment (example_env []) ''930'' ''HH:mm'')"
    and glued: "moment (example_env []) ''930'' ''hmm'' = Valid 1709544600000"
    by (simp_all add: example_defs)
  have first: "l_end (visit (example_env []) (example_editor []) ''HH:mm'' undefined_locals
      (cursor 0 13)) = None"
    by (simp add: visit_time example_word_at undefined_locals_def)
  show ?thesis
    using invalid glued first
      configured_format_first_then_glued
        [of "example_editor []" "cursor 0 13" "''930''"
            "visit (example_env []) (example_editor []) ''HH:mm'' undefined_locals (cursor 0 13)"
            "example_env []" "''HH:mm''" undefined_locals "Valid 1709544600000"]
    by (simp add: example_word_at)
qed

section \<open>Start and end in chronological order\<close>

text \<open>
  C1. Let the editor hold three selections: two around words that parse to valid times
  \<open>ta\<close> and \<open>tb\<close>, and one target, in any order. Then the loop ends with the earlier time
  in start and the later one in end (so start is not after end), and the promise is
  resolved with one injection of the duration between them at the target. Any other
  order \<open>sels'\<close> of the same three selections, in particular the one with the two times
  exchanged, ends with the same start and end and gives the same result, with the same
  formatted string. Times are compared by their value in milliseconds.
\<close>

theorem start_not_after_end_in_any_order:
  assumes "activeTextEditor env = Some editor"
    and "mset (selections editor) = {#a, b, c#}"
    and "word_at editor a = Some wa" and "parse_time env (getTimeString env) wa = Valid ta"
    and "word_at editor b = Some wb" and "parse_time env (getTimeString env) wb = Valid tb"
    and "word_at editor c = None"
    and "mset sels' = mset (selections editor)"
    and "editor' = editor\<lparr>selections := sels'\<rparr>"
    and "env' = env\<lparr>activeTextEditor := Some editor'\<rparr>"
    and "s = min ta tb" and "e = max ta tb"
  shows "forEach env editor (getTimeString env) (selections editor) =
           \<lparr>l_start = Some (Valid s), l_end = Some (Valid e), l_target = Some (active c)\<rparr>
    \<and> s \<le> e
    \<and> forEach env' editor' (getTimeString env') sels' =
           \<lparr>l_start = Some (Valid s), l_end = Some (Valid e), l_target = Some (active c)\<rparr>
    \<and> computeAndPrintDuration env =
           (Resolved (), [(document editor, formattedDuration env (Valid s) (Valid e), active c)])
    \<and> computeAndPrintDuration env' = computeAndPrintDuration env"
proof -
  let ?tpl = "getTimeString env"
  have words: "word_at editor' x = word_at editor x" for x
    by (simp add: word_at_def assms(9))
  have times: "parse_time env' t w = parse_time env t w" for t w
    by (simp add: parse_time_def Let_def assms(10))
  have tpl: "getTimeString env' = ?tpl"
    by (simp add: assms(10))
  have fmt: "formattedDuration env' x y = formattedDuration env x y" for x y
    by (simp add: formattedDuration_def assms(10))
  have len: "length (selections editor) = 3"
    using assms(2) by (metis size_mset size_add_mset size_empty numeral_3_eq_3)
  have len': "length sels' = 3"
    using assms(8) len by (metis size_mset)
  have loop: "forEach env editor ?tpl (selections editor) =
      \<lparr>l_start = Some (Valid s), l_end = Some (Valid e), l_target = Some (active c)\<rparr>"
    unfolding assms(11,12)
    by (rule forEach_two_times[OF assms(2) assms(3) assms(4) assms(5) assms(6) assms(7)])
  have loop': "forEach env' editor' ?tpl sels' =
      \<lparr>l_start = Some (Valid s), l_end = Some (Valid e), l_target = Some (active c)\<rparr>"
  proof -
    have m: "mset sels' = {#a, b, c#}"
      using assms(2,8) by simp
    have wa: "word_at editor' a = Some wa" and wb: "word_at editor' b = Some wb"
      and wc: "word_at editor' c = None"
      using assms(3,5,7) by (simp_all add: words)
    have pa: "parse_time env' ?tpl wa = Valid ta" and pb: "parse_time env' ?tpl wb = Valid tb"
      using assms(4,6) by (simp_all add: times)
    show ?thesis
      unfolding assms(11,12) by (rule forEach_two_times[OF m wa pa wb pb wc])
  qed
  have res: "computeAndPrintDuration env =
      (Resolved (), [(document editor, formattedDuration env (Valid s) (Valid e), active c)])"
    by (simp add: computeAndPrintDuration_def assms(1) len loop Let_def)
  have res': "computeAndPrintDuration env' =
      (Resolved (), [(document editor, formattedDuration env (Valid s) (Valid e), active c)])"
  proof -
    have "activeTextEditor env' = Some editor'" and "selections editor' = sels'"
      and "document editor' = document editor"
      by (simp_all add: assms(9,10))
    then show ?thesis
      using loop' len' by (simp add: computeAndPrintDuration_def tpl fmt Let_def)
  qed
  show ?thesis
    using loop loop' res res' tpl assms(11,12) by simp
qed

theorem start_not_after_end_in_any_order_witness:
  "forEach (example_env [cursor 0 8, cursor 2 0, cursor 0 2])
       (example_editor [cursor 0 8, cursor 2 0, cursor 0 2]) ''HH:mm''
       [cursor 0 8, cursor 2 0, cursor 0 2] =
     \<lparr>l_start = Some (Valid 1709544600000), l_end = Some (Valid 1709560800000),
      l_target = Some (pos 2 0)\<rparr>
   \<and> computeAndPrintDuration (example_env [cursor 0 8, cursor 2 0, cursor 0 2]) =
       (Resolved (), [(example_document, ''4.50'', pos 2 0)])
   \<and> computeAndPrintDuration (example_env [cursor 0 2, cursor 2 0, cursor 0 8]) =
       (Resolved (), [(example_document, ''4.50'', pos 2 0)])"
proof -
  let ?sels = "[cursor 0 8, cursor 2 0, cursor 0 2]"
  let ?sels' = "[cursor 0 2, cursor 2 0, cursor 0 8]"
  have swapped: "example_env ?sels' =
      (example_env ?sels)\<lparr>activeTextEditor := Some ((example_editor ?sels)\<lparr>selections := ?sels'\<rparr>)\<rparr>"
    by (simp add: example_env_def example_editor_def)
  show ?thesis
    using start_not_after_end_in_any_order
        [of "example_env ?sels" "example_editor ?sels" "cursor 0 8" "cursor 0 2" "cursor 2 0"
            "''14:00''" 1709560800000 "''09:30''" 1709544600000 ?sels'
            "(example_editor ?sels)\<lparr>selections := ?sels'\<rparr>" "example_env ?sels'"
            1709544600000 1709560800000]
      swapped
    by (simp add: example_word_at example_parse_time example_four_and_a_half_hours)
qed

section \<open>A time candidate that parses under neither format\<close>

text \<open>
  C2. In the example the first selection stands in the word \<^verbatim>\<open>99:99\<close>, which the
  expression matches and neither format parses. The invalid moment is stored in start
  like any other; \<^verbatim>\<open>isAfter\<close> on it is false, so the valid 09:30 goes to end; no
  error is raised and the promise is resolved.
\<close>

theorem unparsable_candidate_carried_forward:
  "word_at (example_editor [cursor 0 17, cursor 0 2, cursor 2 0]) (cursor 0 17) = Some ''99:99''
   \<and> parse_time (example_env [cursor 0 17, cursor 0 2, cursor 2 0]) ''HH:mm'' ''99:99'' = Invalid
   \<and> forEach (example_env [cursor 0 17, cursor 0 2, cursor 2 0])
         (example_editor [cursor 0 17, cursor 0 2, cursor 2 0]) ''HH:mm''
         [cursor 0 17, cursor 0 2, cursor 2 0] =
       \<lparr>l_start = Some Invalid, l_end = Some (Valid 1709544600000),
        l_target = Some (pos 2 0)\<rparr>
   \<and> fst (computeAndPrintDuration (example_env [cursor 0 17, cursor 0 2, cursor 2 0])) =
       Resolved ()"
  by (simp add: example_word_at example_parse_time forEach_3 visit_time visit_target
      undefined_locals_def computeAndPrintDuration_def)

section \<open>The formatted duration\<close>

text \<open>
  C4. Between two valid moments the printed string is unsigned, has exactly two
  fractional digits, lies within half a hundredth (and the rounding of doubles) of the
  absolute difference in hours, and is \<^verbatim>\<open>0.00\<close> for equal times
  (\<open>valid_times_print_two_fraction_digits\<close>, \<open>valid_times_print_unsigned\<close>,
  \<open>equal_times_print_zero\<close>). It fails where a time candidate is invalid: in the example
  the second selection stands in the word \<^verbatim>\<open>99:99\<close>, the promise is resolved, and the
  string injected at the target is \<^verbatim>\<open>NaN\<close>, since the difference with an invalid
  moment is NaN, and so are its absolute value in hours and its \<^verbatim>\<open>toFixed(2)\<close>.
\<close>

theorem invalid_time_prints_NaN:
  "computeAndPrintDuration (example_env [cursor 0 2, cursor 0 17, cursor 2 0]) =
     (Resolved (), [(example_document, ''NaN'', pos 2 0)])"
  by (simp add: example_word_at example_parse_time forEach_3 visit_time visit_target
      undefined_locals_def computeAndPrintDuration_def formattedDuration_def toFixed_def
      Math_abs_def)

section \<open>What the computation reads and writes\<close>

text \<open>
  C9, as stated, fails: in the example the function itself makes the call of
  \<^verbatim>\<open>injectString\<close> that writes \<^verbatim>\<open>4.50\<close> at the target, and the same call of the
  function (it has no argument) with no active editor is rejected with a \<^verbatim>\<open>TypeError\<close>.
\<close>

theorem duration_itself_injects:
  "snd (computeAndPrintDuration (example_env [cursor 0 2, cursor 0 8, cursor 2 0])) =
     [(example_document, ''4.50'', pos 2 0)]
   \<and> computeAndPrintDuration
       ((example_env [cursor 0 2, cursor 0 8, cursor 2 0])\<lparr>activeTextEditor := None\<rparr>) =
     (Rejected TypeError, [])"
  by (simp add: example_word_at example_parse_time forEach_3 visit_time visit_target
      undefined_locals_def computeAndPrintDuration_def example_four_and_a_half_hours)

text \<open>
  C9, amended. The result of \<^verbatim>\<open>computeAndPrintDuration()\<close> is determined by what it
  reads from its surroundings: the document of the active editor and the active
  positions of its selections, the configured time string, the parser and the number
  formatting. Two surroundings that agree on these give the same promise state and the
  same calls, whatever else differs (the anchors of the selections, for one). When the
  promise is resolved the function has itself made one call of \<^verbatim>\<open>injectString\<close>, on
  the document of the active editor.
\<close>

theorem duration_determined_by_what_it_reads:
  assumes "activeTextEditor env = Some editor"
    and "activeTextEditor env' = Some editor'"
    and "document editor' = document editor"
    and "map active (selections editor') = map active (selections editor)"
    and "getTimeString env' = getTimeString env"
    and "moment env' = moment env"
    and "NumberToString env' = NumberToString env"
  shows "computeAndPrintDuration env' = computeAndPrintDuration env
    \<and> (fst (computeAndPrintDuration env) = Resolved () \<longrightarrow>
         (\<exists>text target. snd (computeAndPrintDuration env) = [(document editor, text, target)]))"
proof -
  have len: "length (selections editor') = length (selections editor)"
    using assms(4) by (rule map_eq_imp_length_eq)
  have loop: "forEach env' editor' tpl (selections editor') =
      forEach env editor tpl (selections editor)" for tpl
    unfolding forEach_def by (rule foldl_visit_reads[OF assms(4) assms(3) assms(6)])
  have fmt: "formattedDuration env' x y = formattedDuration env x y" for x y
    by (simp add: formattedDuration_def assms(7))
  have same: "computeAndPrintDuration env' = computeAndPrintDuration env"
    by (simp add: computeAndPrintDuration_def assms(1,2,3,5) len loop fmt Let_def
        split: option.splits)
  have call: "fst (computeAndPrintDuration env) = Resolved () \<longrightarrow>
      (\<exists>text target. snd (computeAndPrintDuration env) = [(document editor, text, target)])"
    by (auto simp: computeAndPrintDuration_def assms(1) Let_def split: option.splits)
  show ?thesis
    using same call by simp
qed

theorem duration_determined_by_what_it_reads_witness:
  "computeAndPrintDuration
     (example_env [\<lparr>anchor = pos 0 0, active = pos 0 2\<rparr>, \<lparr>anchor = pos 0 6, active = pos 0 8\<rparr>,
        cursor 2 0]) =
   computeAndPrintDuration (example_env [cursor 0 2, cursor 0 8, cursor 2 0])
   \<and> snd (computeAndPrintDuration (example_env [cursor 0 2, cursor 0 8, cursor 2 0])) =
       [(example_document, ''4.50'', pos 2 0)]"
proof -
  let ?sels = "[cursor 0 2, cursor 0 8, cursor 2 0]"
  let ?sels' = "[\<lparr>anchor = pos 0 0, active = pos 0 2\<rparr>, \<lparr>anchor = pos 0 6, active = pos 0 8\<rparr>,
    cursor 2 0]"
  have res: "computeAndPrintDuration (example_env ?sels) =
      (Resolved (), [(example_document, ''4.50'', pos 2 0)])"
    by (simp add: example_word_at example_parse_time forEach_3 visit_time visit_target
        undefined_locals_def computeAndPrintDuration_def example_four_and_a_half_hours)
  have rest: "getTimeString (example_env ?sels') = getTimeString (example_env ?sels)"
      "moment (example_env ?sels') = moment (example_env ?sels)"
      "NumberToString (example_env ?sels') = NumberToString (example_env ?sels)"
    by (simp_all add: example_env_def)
  show ?thesis
    using res rest
      duration_determined_by_what_it_reads
        [of "example_env ?sels" "example_editor ?sels" "example_env ?sels'"
            "example_editor ?sels'"]
    by simp
qed

section \<open>Cancellation\<close>

text \<open>
  C8. When the chain of \<^verbatim>\<open>processInput\<close>, \<^verbatim>\<open>showNote\<close> or \<^verbatim>\<open>showEntry\<close> is rejected
  with the string \<^verbatim>\<open>'cancel'\<close>, the handler reports nothing: no \<^verbatim>\<open>J.Util.error\<close>, no
  \<^verbatim>\<open>console.error\<close>, no \<^verbatim>\<open>showError\<close>. \<^verbatim>\<open>processInput\<close> leaves its deferred
  unsettled; \<^verbatim>\<open>showNote\<close> and \<^verbatim>\<open>showEntry\<close> pass the sentinel on, rejecting their
  deferred with \<^verbatim>\<open>'cancel'\<close> itself and with no error value.
\<close>

theorem cancel_not_reported:
  assumes "chain = Rejected (Str ''cancel'')"
    and "entry offset = Rejected (Str ''cancel'')"
  shows "reports (processInput chain) = [] \<and> deferred (processInput chain) = Pending
    \<and> reports (showNote chain) = [] \<and> deferred (showNote chain) = Rejected (Str ''cancel'')
    \<and> reports (showEntry entry offset) = []
    \<and> deferred (showEntry entry offset) = Rejected (Str ''cancel'')"
  using assms by (simp add: processInput_def showNote_def showEntry_def)

theorem cancel_not_reported_witness:
  "reports (processInput (Rejected (Str ''cancel'') :: unit promise)) = []
   \<and> deferred (processInput (Rejected (Str ''cancel'') :: unit promise)) = Pending
   \<and> reports (showNote (Rejected (Str ''cancel'') :: unit promise)) = []
   \<and> deferred (showNote (Rejected (Str ''cancel'') :: unit promise)) = Rejected (Str ''cancel'')
   \<and> reports (showEntry (\<lambda>offset. Rejected (Str ''cancel'') :: unit promise) (- 1)) = []
   \<and> deferred (showEntry (\<lambda>offset. Rejected (Str ''cancel'') :: unit promise) (- 1)) =
       Rejected (Str ''cancel'')"
  using cancel_not_reported
      [of "Rejected (Str ''cancel'') :: unit promise"
          "\<lambda>offset. Rejected (Str ''cancel'') :: unit promise" "- 1"]
  by simp

text \<open>Any other rejection is reported by all three, so the branch that is skipped is real.\<close>

lemma other_rejections_reported:
  assumes "ne_cancel r"
  shows "reports (processInput (Rejected r)) = [Util_error ''Failed to process input.'']"
    and "reports (showNote (Rejected r)) =
      [Console_error ''[Journal]'' ''Failed to get file, Reason: '' r,
       ShowErrorMessage ''Failed to create and load notes'']"
    and "reports (showEntry (\<lambda>offset. Rejected r) k) =
      [Console_error ''[Journal]'' ''Failed to get file, Reason: '' r]"
  using assms by (simp_all add: processInput_def showNote_def showEntry_def showError_def)

end
